theory Spec2Isabelle
  imports Complex_Main
begin

section \<open>The catalog listing endpoint (src/app/api/music/route.ts)\<close>

text \<open>
  The handler reads the file system twice: \<open>fs.existsSync(musicDir)\<close> and
  \<open>fs.readdirSync(musicDir)\<close>. The file system is the input of the model: whether the
  directory exists, and what reading it gives (\<open>None\<close> when \<open>readdirSync\<close> throws).
\<close>

record filesystem =
  existsSync :: bool
  readdirSync :: "string list option"

datatype json_body = TracksBody "string list" | ErrorBody string

record response =
  status :: nat
  body :: json_body

text \<open>\<open>String.prototype.endsWith\<close> with its default end position.\<close>

definition endsWith :: "string \<Rightarrow> string \<Rightarrow> bool" where
  "endsWith str searchString =
     (length searchString \<le> length str \<and>
      drop (length str - length searchString) str = searchString)"

text \<open>\<open>NextResponse.json(x)\<close> without an init answers with status 200.\<close>

definition GET :: "filesystem \<Rightarrow> response" where
  "GET fs =
     (if \<not> existsSync fs then
        \<lparr>status = 404, body = ErrorBody ''Music directory not found''\<rparr>
      else
        (case readdirSync fs of
           None \<Rightarrow> \<lparr>status = 500, body = ErrorBody ''Failed to read music directory''\<rparr>
         | Some files \<Rightarrow>
             \<lparr>status = 200, body = TracksBody (filter (\<lambda>name. endsWith name ''.mp3'') files)\<rparr>))"

section \<open>The player component (src/app/player.tsx): data\<close>

text \<open>
  The file holds three successive versions of the component; the model follows the last
  one (the version with \<open>lastDragPositionRef\<close>). Numbers are JavaScript numbers,
  modelled as reals; a number that can be \<open>NaN\<close> is a \<open>real option\<close> with
  \<open>None\<close> for \<open>NaN\<close>. Times and pixel coordinates are computed in the reals; the
  random index, where rounding decides which track is chosen, is computed in binary64.
\<close>

datatype context_state = Suspended | Running | Closed

text \<open>What \<open>getBoundingClientRect()\<close> of the progress bar gives.\<close>

record rect =
  rect_left :: real
  rect_width :: real

text \<open>
  The \<open><audio>\<close> element: the attributes the component reads and writes, and
  three counters of what the component asked of it: the values it assigned to
  \<open>currentTime\<close> (oldest first), the number of \<open>load()\<close> calls and the number of
  \<open>play()\<close> calls.
\<close>

record audio_element =
  el_currentTime :: real
  el_duration :: "real option"
  el_paused :: bool
  el_muted :: bool
  el_readyState :: nat
  el_source :: "string option"
  el_seeks :: "real list"
  el_loads :: nat
  el_plays :: nat

text \<open>
  The state variables a callback reads are constants of the render that created the
  callback: \<open>setIsDragging(true)\<close> changes what the next render sees, not what
  the running callback or the callbacks it has registered see. Only \<open>duration\<close> and
  \<open>isDragging\<close> are read by a callback that outlives its render (the progress
  callbacks), so a closure carries these two.
\<close>

record closure =
  c_duration :: "real option"
  c_isDragging :: bool

text \<open>The callbacks handed to \<open>setTimeout\<close>, by the function that schedules them.\<close>

datatype task =
    SelectAfterFetch "string list"
  | PlayAfterStart
  | StartAfterEnded "string option"
  | RetryAfterError
  | PlayAfterRetry
  | PlayAfterTrackChange

record player =
  tracks :: "string list"
  currentTrack :: "string option"
  isPlaying :: bool
  error :: "string option"
  muted :: bool
  showStartOverlay :: bool
  isLoading :: bool
  retryCount :: nat
  currentTime :: real
  duration :: "real option"
  isDragging :: bool
  seekPosition :: "real option"
  audioRef :: "audio_element option"
  audioContextRef :: "context_state option"
  progressBarRef :: "rect option"
  hasInitializedRef :: bool
  progressIntervalRef :: "closure option"
  lastDragPositionRef :: "real option"
  trackEndedRef :: bool
  timers :: "(nat \<times> task) list"
  listeners :: "closure list"

text \<open>
  \<open>progressIntervalRef\<close> is \<open>Some c\<close> while an interval is installed, \<open>c\<close> being
  the closure of the \<open>updateProgress\<close> it runs. \<open>timers\<close> are the pending
  \<open>setTimeout\<close> callbacks with their delays in milliseconds; \<open>listeners\<close> are the
  closures of the document-level move and up listeners of the gestures in progress.
\<close>

definition new_audio :: audio_element where
  "new_audio = \<lparr>el_currentTime = 0, el_duration = None, el_paused = True, el_muted = False,
     el_readyState = 0, el_source = None, el_seeks = [], el_loads = 0, el_plays = 0\<rparr>"

definition initial :: "rect \<Rightarrow> player" where
  "initial bar = \<lparr>tracks = [], currentTrack = None, isPlaying = False, error = None,
     muted = False, showStartOverlay = True, isLoading = False, retryCount = 0,
     currentTime = 0, duration = Some 0, isDragging = False, seekPosition = None,
     audioRef = Some new_audio, audioContextRef = None, progressBarRef = Some bar,
     hasInitializedRef = False, progressIntervalRef = None, lastDragPositionRef = None,
     trackEndedRef = False, timers = [], listeners = []\<rparr>"

definition render :: "player \<Rightarrow> closure" where
  "render s = \<lparr>c_duration = duration s, c_isDragging = isDragging s\<rparr>"

subsection \<open>The calls on the audio element\<close>

text \<open>\<open>audio.currentTime = t\<close>\<close>

definition set_currentTime :: "real \<Rightarrow> audio_element \<Rightarrow> audio_element" where
  "set_currentTime t a = a\<lparr>el_currentTime := t, el_seeks := el_seeks a @ [t]\<rparr>"

text \<open>\<open>audio.pause()\<close>\<close>

definition pause_el :: "audio_element \<Rightarrow> audio_element" where
  "pause_el a = a\<lparr>el_paused := True\<rparr>"

text \<open>
  \<open>audio.play()\<close>; \<open>ok\<close> says whether the promise resolves. A resolved promise
  means the element plays.
\<close>

definition play_el :: "bool \<Rightarrow> audio_element \<Rightarrow> audio_element" where
  "play_el ok a =
     (if ok then a\<lparr>el_paused := False, el_plays := el_plays a + 1\<rparr>
      else a\<lparr>el_plays := el_plays a + 1\<rparr>)"

text \<open>\<open>audio.load()\<close>\<close>

definition load_el :: "audio_element \<Rightarrow> audio_element" where
  "load_el a = a\<lparr>el_loads := el_loads a + 1\<rparr>"

text \<open>
  The forced reload: \<open>innerHTML = ""\<close>, a new \<open><source>\<close> child with the given
  \<open>src\<close>, then \<open>load()\<close>.
\<close>

definition reload_source :: "string \<Rightarrow> audio_element \<Rightarrow> audio_element" where
  "reload_source track a = load_el (a\<lparr>el_source := Some (''/music/'' @ track)\<rparr>)"

definition setTimeout :: "task \<Rightarrow> nat \<Rightarrow> player \<Rightarrow> player" where
  "setTimeout callback delay s = s\<lparr>timers := timers s @ [(delay, callback)]\<rparr>"

section \<open>The player component: the callbacks\<close>

subsection \<open>The random selection\<close>

text \<open>Rounding to the nearest integer, ties to the even one.\<close>

definition round_even :: "real \<Rightarrow> int" where
  "round_even m =
     (let f = \<lfloor>m\<rfloor>; d = m - of_int f
      in if d < 1 / 2 then f else if 1 / 2 < d then f + 1 else if even f then f else f + 1)"

text \<open>
  The binary64 number nearest to a nonnegative real (below the overflow threshold):
  a significand of 53 bits, a least exponent of \<open>-1022\<close>, ties to even. It is what
  a product of two nonnegative binary64 numbers evaluates to.
\<close>

definition binary64 :: "real \<Rightarrow> real" where
  "binary64 x =
     (if x \<le> 0 then 0
      else
        let e = max \<lfloor>log 2 x\<rfloor> (- 1022);
            ulp = 2 powr (of_int e - 52)
        in of_int (round_even (x / ulp)) * ulp)"

text \<open>
  \<open>Math.random()\<close> returns a binary64 number in \<open>[0, 1)\<close>, so a number that is at
  least 0 and at most \<open>1 - 2\<^sup>-\<^sup>5\<^sup>3\<close>, the largest binary64 number below 1.
\<close>

definition is_random :: "real \<Rightarrow> bool" where
  "is_random rnd = (0 \<le> rnd \<and> rnd \<le> 1 - 1 / 2 ^ 53)"

text \<open>
  \<open>selectRandomTrack\<close>; \<open>rnd\<close> is what \<open>Math.random()\<close> returns, and the product
  \<open>Math.random() * availableTracks.length\<close> is a binary64 product. An index outside
  the array gives \<open>undefined\<close>, which the state keeps as no track.
\<close>

definition selectRandomTrack :: "string list \<Rightarrow> real \<Rightarrow> player \<Rightarrow> string option \<times> player" where
  "selectRandomTrack availableTracks rnd s =
     (if length availableTracks = 0 then (None, s)
      else
        let randomIndex = \<lfloor>binary64 (rnd * real (length availableTracks))\<rfloor>;
            newTrack = (if 0 \<le> randomIndex \<and> randomIndex < int (length availableTracks)
                        then Some (availableTracks ! nat randomIndex) else None)
        in (newTrack, s\<lparr>currentTrack := newTrack, retryCount := 0\<rparr>))"

definition updateProgress :: "closure \<Rightarrow> player \<Rightarrow> player" where
  "updateProgress c s =
     (case audioRef s of
        None \<Rightarrow> s
      | Some a \<Rightarrow>
          if c_isDragging c then s
          else
            let s1 = s\<lparr>currentTime := el_currentTime a\<rparr>
            in (case el_duration a of
                  None \<Rightarrow> s1
                | Some d \<Rightarrow> if Some d \<noteq> c_duration c then s1\<lparr>duration := Some d\<rparr> else s1))"

definition startProgressTracking :: "closure \<Rightarrow> player \<Rightarrow> player" where
  "startProgressTracking c s = s\<lparr>progressIntervalRef := Some c\<rparr>"

definition stopProgressTracking :: "player \<Rightarrow> player" where
  "stopProgressTracking s = s\<lparr>progressIntervalRef := None\<rparr>"

subsection \<open>The progress bar\<close>

text \<open>
  A mouse event carries \<open>clientX\<close>; a touch event carries the \<open>clientX\<close> of each
  of its touches and no \<open>clientX\<close> of its own.
\<close>

datatype pointer_event = MouseEvent real | TouchEvent "real list"

fun clientX_of :: "pointer_event \<Rightarrow> real option" where
  "clientX_of (TouchEvent (x # xs)) = Some x"
| "clientX_of (TouchEvent []) = None"
| "clientX_of (MouseEvent x) = Some x"

definition handleProgressBarInteraction :: "closure \<Rightarrow> pointer_event \<Rightarrow> player \<Rightarrow> player" where
  "handleProgressBarInteraction c e s =
     (case progressBarRef s of
        None \<Rightarrow> s
      | Some bar \<Rightarrow>
          (case c_duration c of
             None \<Rightarrow> s
           | Some d \<Rightarrow>
               if d \<le> 0 then s
               else
                 (case clientX_of e of
                    None \<Rightarrow> s
                  | Some clientX \<Rightarrow>
                      let position = (clientX - rect_left bar) / rect_width bar;
                          clampedPosition = max 0 (min 1 position);
                          newTime = clampedPosition * d;
                          s1 = s\<lparr>seekPosition := Some clampedPosition, currentTime := newTime,
                                 lastDragPositionRef := Some clampedPosition\<rparr>
                      in if \<not> c_isDragging c then
                           (case audioRef s1 of
                              None \<Rightarrow> s1
                            | Some a \<Rightarrow> s1\<lparr>audioRef := Some (set_currentTime newTime a)\<rparr>)
                         else s1)))"

text \<open>
  \<open>handleProgressBarDown\<close> runs with the closure \<open>c\<close> of the render that created
  it, calls that render's \<open>handleProgressBarInteraction\<close>, and registers
  \<open>handleMove\<close> and \<open>handleUp\<close>, which keep the same closure until they are removed.
\<close>

definition handleProgressBarDown :: "closure \<Rightarrow> pointer_event \<Rightarrow> player \<Rightarrow> player" where
  "handleProgressBarDown c e s =
     (let s1 = stopProgressTracking (s\<lparr>isDragging := True\<rparr>);
          s2 = handleProgressBarInteraction c e s1
      in s2\<lparr>listeners := listeners s2 @ [c]\<rparr>)"

definition handleMove :: "closure \<Rightarrow> pointer_event \<Rightarrow> player \<Rightarrow> player" where
  "handleMove c e s = handleProgressBarInteraction c e s"

text \<open>
  \<open>handleUp\<close>: with a \<open>NaN\<close> duration the assignment to \<open>currentTime\<close> throws,
  and the \<open>catch\<close> only removes the listeners, as the \<open>try\<close> does at its end.
\<close>

definition handleUp :: "closure \<Rightarrow> player \<Rightarrow> player" where
  "handleUp c s =
     (let s1 = s\<lparr>isDragging := False\<rparr>;
          done = (\<lambda>s2. (startProgressTracking c s2)\<lparr>seekPosition := None\<rparr>);
          s3 = (case (audioRef s1, lastDragPositionRef s1) of
                  (Some a, Some p) \<Rightarrow>
                    (case c_duration c of
                       None \<Rightarrow> s1
                     | Some d \<Rightarrow>
                         done (s1\<lparr>audioRef := Some (set_currentTime (p * d) a),
                                  currentTime := p * d\<rparr>))
                | _ \<Rightarrow> done s1)
      in s3\<lparr>listeners := remove1 c (listeners s3)\<rparr>)"

subsection \<open>Loading the catalog and the audio context\<close>

text \<open>
  \<open>fetchTracks\<close>: the response of \<open>/api/music\<close>, or \<open>None\<close> when \<open>fetch\<close>
  itself fails. A response that is not \<open>ok\<close> throws; a body without a nonempty
  \<open>tracks\<close> array reports that no tracks were found.
\<close>

definition fetchTracks :: "response option \<Rightarrow> player \<Rightarrow> player" where
  "fetchTracks resp s =
     (case resp of
        None \<Rightarrow> s\<lparr>error := Some ''Failed to load music tracks''\<rparr>
      | Some r \<Rightarrow>
          if \<not> (200 \<le> status r \<and> status r \<le> 299) then
            s\<lparr>error := Some ''Failed to load music tracks''\<rparr>
          else
            (case body r of
               TracksBody (t # ts) \<Rightarrow>
                 let s1 = s\<lparr>tracks := t # ts\<rparr>
                 in if currentTrack s = None \<and> length (tracks s) = 0
                    then setTimeout (SelectAfterFetch (t # ts)) 0 s1 else s1
             | _ \<Rightarrow>
                 s\<lparr>error := Some
                   ''No music tracks found. Please add MP3 files to the /public/music/ folder.''\<rparr>))"

text \<open>
  \<open>initializeAudioContext\<close>: \<open>created\<close> is the state of a newly constructed
  context, or \<open>None\<close> when the constructor throws; \<open>resumeOk\<close> says whether
  \<open>resume()\<close> resolves.
\<close>

definition initializeAudioContext :: "context_state option \<Rightarrow> bool \<Rightarrow> player \<Rightarrow> player" where
  "initializeAudioContext created resumeOk s =
     (let failed = (\<lambda>s1. s1\<lparr>error := Some
            ''Failed to initialize audio system. Please reload the page.''\<rparr>)
      in (case (case audioContextRef s of None \<Rightarrow> created | Some ctx \<Rightarrow> Some ctx) of
            None \<Rightarrow> failed s
          | Some ctx \<Rightarrow>
              let s1 = s\<lparr>audioContextRef := Some ctx\<rparr>
              in if ctx = Suspended then
                   (if resumeOk then s1\<lparr>audioContextRef := Some Running, hasInitializedRef := True\<rparr>
                    else failed s1)
                 else s1\<lparr>hasInitializedRef := True\<rparr>))"

text \<open>
  The guard before every playback attempt:
  \<open>if (ctx && ctx.state === "suspended") await ctx.resume()\<close>. \<open>None\<close> is the
  rejected \<open>resume()\<close>, which the caller's \<open>catch\<close> handles.
\<close>

definition resumeIfSuspended :: "bool \<Rightarrow> player \<Rightarrow> player option" where
  "resumeIfSuspended resumeOk s =
     (if audioContextRef s = Some Suspended then
        (if resumeOk then Some (s\<lparr>audioContextRef := Some Running\<rparr>) else None)
      else Some s)"

text \<open>The effect on \<open>isPlaying\<close>.\<close>

definition trackingEffect :: "player \<Rightarrow> player" where
  "trackingEffect s =
     (if isPlaying s then startProgressTracking (render s) s else stopProgressTracking s)"

subsection \<open>Playback\<close>

text \<open>
  \<open>startPlayback\<close> reads the \<open>currentTrack\<close> of the render that created it, which
  the caller passes. It ends by scheduling the attempt.
\<close>

definition startPlayback :: "string option \<Rightarrow> bool \<Rightarrow> player \<Rightarrow> player" where
  "startPlayback track resumeOk s =
     (case audioRef s of
        None \<Rightarrow> s
      | Some a \<Rightarrow>
          if track = None then s
          else
            (case resumeIfSuspended resumeOk (s\<lparr>isLoading := True\<rparr>) of
               None \<Rightarrow>
                 s\<lparr>isLoading := False, error := Some
                   ''Failed to initialize audio playback. Please reload the page.''\<rparr>
             | Some s1 \<Rightarrow>
                 let s2 = (if el_readyState a = 0 then s1\<lparr>audioRef := Some (load_el a)\<rparr> else s1)
                 in setTimeout PlayAfterStart 500 s2))"

definition playAfterStart :: "bool \<Rightarrow> player \<Rightarrow> player" where
  "playAfterStart playOk s =
     (case audioRef s of
        None \<Rightarrow> s
      | Some a \<Rightarrow>
          if playOk then
            startProgressTracking (render s)
              (s\<lparr>audioRef := Some (play_el True a), isPlaying := True, showStartOverlay := False,
                 isLoading := False, error := None\<rparr>)
          else
            s\<lparr>audioRef := Some (play_el False a), isPlaying := False, isLoading := False,
              error := Some ''Failed to play the track. Please try again.''\<rparr>)"

definition togglePlayPause :: "bool \<Rightarrow> bool \<Rightarrow> player \<Rightarrow> player" where
  "togglePlayPause resumeOk playOk s =
     (case audioRef s of
        None \<Rightarrow> s
      | Some a \<Rightarrow>
          if isPlaying s then
            stopProgressTracking (s\<lparr>audioRef := Some (pause_el a), isPlaying := False\<rparr>)
          else
            (case resumeIfSuspended resumeOk (s\<lparr>isLoading := True\<rparr>) of
               None \<Rightarrow>
                 s\<lparr>isPlaying := False, isLoading := False,
                   error := Some ''Failed to resume playback. Please try again.''\<rparr>
             | Some s1 \<Rightarrow>
                 if playOk then
                   startProgressTracking (render s)
                     (s1\<lparr>audioRef := Some (play_el True a), isPlaying := True,
                        isLoading := False, error := None\<rparr>)
                 else
                   s1\<lparr>audioRef := Some (play_el False a), isPlaying := False, isLoading := False,
                      error := Some ''Failed to resume playback. Please try again.''\<rparr>))"

definition handleTrackEnded :: "real \<Rightarrow> player \<Rightarrow> player" where
  "handleTrackEnded rnd s =
     (let s1 = (stopProgressTracking (s\<lparr>trackEndedRef := True\<rparr>))\<lparr>currentTime := 0\<rparr>;
          s2 = snd (selectRandomTrack (tracks s1) rnd s1)
      in setTimeout (StartAfterEnded (currentTrack s)) 500 s2)"

definition skipToNext :: "real \<Rightarrow> player \<Rightarrow> player" where
  "skipToNext rnd s =
     (let s1 = (stopProgressTracking s)\<lparr>currentTime := 0\<rparr>
      in snd (selectRandomTrack (tracks s1) rnd s1))"

text \<open>
  \<open>handleError\<close>: \<open>message\<close> is \<open>target.error?.message\<close>, \<open>rnd\<close> the random
  number of the selection, if one is made.
\<close>

definition handleError :: "string option \<Rightarrow> real \<Rightarrow> player \<Rightarrow> player" where
  "handleError message rnd s =
     (let text = (case message of None \<Rightarrow> ''Unknown error''
                  | Some m \<Rightarrow> if m = [] then ''Unknown error'' else m);
          s1 = stopProgressTracking (s\<lparr>error := Some (''Error playing the track: '' @ text)\<rparr>)
      in if retryCount s < 3 then
           (let s2 = s1\<lparr>retryCount := retryCount s1 + 1\<rparr>
            in (case audioRef s2 of
                  None \<Rightarrow> s2
                | Some a \<Rightarrow> setTimeout RetryAfterError 1000 (s2\<lparr>audioRef := Some (load_el a)\<rparr>)))
         else snd (selectRandomTrack (tracks s1) rnd s1))"

definition retryAfterError :: "bool \<Rightarrow> real \<Rightarrow> player \<Rightarrow> player" where
  "retryAfterError playOk rnd s =
     (case audioRef s of
        None \<Rightarrow> s
      | Some a \<Rightarrow>
          if playOk then s\<lparr>audioRef := Some (play_el True a)\<rparr>
          else
            (let s1 = s\<lparr>audioRef := Some (play_el False a)\<rparr>
             in snd (selectRandomTrack (tracks s1) rnd s1)))"

definition toggleMute :: "player \<Rightarrow> player" where
  "toggleMute s =
     (case audioRef s of
        None \<Rightarrow> s
      | Some a \<Rightarrow> s\<lparr>audioRef := Some (a\<lparr>el_muted := \<not> muted s\<rparr>), muted := \<not> muted s\<rparr>)"

subsection \<open>Retry, reset, track change\<close>

definition retryCurrentTrack :: "bool \<Rightarrow> player \<Rightarrow> player" where
  "retryCurrentTrack resumeOk s =
     (case audioRef s of
        None \<Rightarrow> s
      | Some a \<Rightarrow>
          (case currentTrack s of
             None \<Rightarrow> s
           | Some track \<Rightarrow>
               let s1 = s\<lparr>isLoading := True, error := None, currentTime := 0\<rparr>
               in (case resumeIfSuspended resumeOk s1 of
                     None \<Rightarrow>
                       s1\<lparr>isLoading := False,
                          error := Some ''Failed to retry playback. Please reload the page.''\<rparr>
                   | Some s2 \<Rightarrow>
                       setTimeout PlayAfterRetry 500
                         (s2\<lparr>audioRef := Some (reload_source track a)\<rparr>))))"

definition playAfterRetry :: "bool \<Rightarrow> player \<Rightarrow> player" where
  "playAfterRetry playOk s =
     (case audioRef s of
        None \<Rightarrow> s
      | Some a \<Rightarrow>
          if playOk then
            startProgressTracking (render s)
              (s\<lparr>audioRef := Some (play_el True a), isPlaying := True, isLoading := False\<rparr>)
          else
            s\<lparr>audioRef := Some (play_el False a), isPlaying := False, isLoading := False,
              error := Some ''Failed to play the track. Please try again.''\<rparr>)"

text \<open>
  \<open>resetAudioSystem\<close>: \<open>closeOk\<close> says whether \<open>close()\<close> of the old context
  resolves, \<open>created\<close> is the state of the new context (\<open>None\<close> when the constructor
  throws), \<open>resumeOk\<close> belongs to the \<open>startPlayback\<close> it ends with.
\<close>

definition resetAudioSystem :: "bool \<Rightarrow> context_state option \<Rightarrow> bool \<Rightarrow> player \<Rightarrow> player" where
  "resetAudioSystem closeOk created resumeOk s =
     (let failed = (\<lambda>s'. s'\<lparr>isLoading := False,
            error := Some ''Failed to reset audio system. Please reload the page.''\<rparr>);
          s1 = stopProgressTracking (s\<lparr>isLoading := True, error := None, currentTime := 0\<rparr>)
      in if audioContextRef s1 \<noteq> None \<and> \<not> closeOk then failed s1
         else
           (case created of
              None \<Rightarrow> failed (s1\<lparr>audioContextRef := None\<rparr>)
            | Some ctx \<Rightarrow>
                let s2 = s1\<lparr>audioContextRef := Some ctx\<rparr>;
                    s3 = (case (audioRef s2, currentTrack s2) of
                            (Some a, Some track) \<Rightarrow> s2\<lparr>audioRef := Some (reload_source track a)\<rparr>
                          | _ \<Rightarrow> s2);
                    s4 = s3\<lparr>isLoading := False\<rparr>
                in if \<not> showStartOverlay s4 then startPlayback (currentTrack s) resumeOk s4
                   else s4))"

definition handleMetadataLoaded :: "player \<Rightarrow> player" where
  "handleMetadataLoaded s =
     (case audioRef s of None \<Rightarrow> s | Some a \<Rightarrow> s\<lparr>duration := el_duration a\<rparr>)"

text \<open>
  The effect on \<open>currentTrack\<close> and \<open>isPlaying\<close>: it reloads the element and, if the
  session was playing or the end-of-track flag is set, schedules the attempt to play.
\<close>

definition trackChangeEffect :: "player \<Rightarrow> player" where
  "trackChangeEffect s =
     (case audioRef s of
        None \<Rightarrow> s
      | Some a \<Rightarrow>
          (case currentTrack s of
             None \<Rightarrow> s
           | Some track \<Rightarrow>
               let s1 = stopProgressTracking (s\<lparr>isLoading := True, currentTime := 0\<rparr>);
                   s2 = s1\<lparr>audioRef := Some (reload_source track a)\<rparr>
               in if isPlaying s \<or> trackEndedRef s then setTimeout PlayAfterTrackChange 500 s2
                  else s2\<lparr>isLoading := False\<rparr>))"

definition playAfterTrackChange :: "bool \<Rightarrow> player \<Rightarrow> player" where
  "playAfterTrackChange playOk s =
     (case audioRef s of
        None \<Rightarrow> s
      | Some a \<Rightarrow>
          if playOk then
            (startProgressTracking (render s)
               (s\<lparr>audioRef := Some (play_el True a), isLoading := False, error := None\<rparr>))
              \<lparr>trackEndedRef := False\<rparr>
          else
            s\<lparr>audioRef := Some (play_el False a), isPlaying := False, isLoading := False,
              error := Some ''Failed to play the new track. Please try again.''\<rparr>)"

subsection \<open>Watchdog, visibility, element events\<close>

text \<open>The callback of the one-second interval installed while \<open>isPlaying\<close> holds.\<close>

definition watchdog :: "player \<Rightarrow> player" where
  "watchdog s =
     (case audioRef s of
        None \<Rightarrow> s
      | Some a \<Rightarrow>
          if el_paused a \<and> isPlaying s then stopProgressTracking (s\<lparr>isPlaying := False\<rparr>)
          else s)"

text \<open>
  \<open>handleVisibilityChange\<close>: \<open>visible\<close> is \<open>document.visibilityState === "visible"\<close>;
  a rejected \<open>resume()\<close> is caught and logged, and the handler goes on.
\<close>

definition handleVisibilityChange :: "bool \<Rightarrow> bool \<Rightarrow> bool \<Rightarrow> player \<Rightarrow> player" where
  "handleVisibilityChange visible resumeOk playOk s =
     (if visible then
        (let s1 = (if audioContextRef s = Some Suspended \<and> resumeOk
                   then s\<lparr>audioContextRef := Some Running\<rparr> else s)
         in (case audioRef s1 of
               None \<Rightarrow> s1
             | Some a \<Rightarrow>
                 if isPlaying s1 \<and> el_paused a then
                   (if playOk then
                      startProgressTracking (render s) (s1\<lparr>audioRef := Some (play_el True a)\<rparr>)
                    else
                      stopProgressTracking
                        (s1\<lparr>audioRef := Some (play_el False a), isPlaying := False\<rparr>))
                 else s1))
      else (if isPlaying s then stopProgressTracking s else s))"

text \<open>The \<open>onPlay\<close> and \<open>onPause\<close> handlers of the element.\<close>

definition onPlay :: "player \<Rightarrow> player" where
  "onPlay s = s\<lparr>isPlaying := True\<rparr>"

definition onPause :: "player \<Rightarrow> player" where
  "onPause s = s\<lparr>isPlaying := False\<rparr>"

section \<open>The session as a transition system\<close>

text \<open>
  Everything that happens to the component is an event: a response of the catalog, a
  click on one of the controls, a pointer gesture on the progress bar, an event of the
  audio element, a timer, one of the effects, a change of visibility. An event carries
  what the environment decides: whether \<open>resume()\<close> and \<open>play()\<close> resolve, the result
  of \<open>Math.random()\<close>, the new state of an audio context.

  A handler runs to its end in one step, its awaits included. A handler called for an
  event is the one of the latest render, so it reads the current state; a callback
  registered earlier keeps its closure.
\<close>

datatype event =
    FetchDone "response option"
  | UserInteraction "context_state option" bool
  | ClickStart bool
  | ClickToggle bool bool
  | ClickSkip real
  | ClickMute
  | ClickRetry bool
  | ClickReset bool "context_state option" bool
  | PointerDown pointer_event
  | PointerMove pointer_event
  | PointerUp
  | AudioEnded real
  | AudioError "string option" real
  | AudioPlay
  | AudioPause
  | AudioLoadedMetadata
  | TimerFired nat bool bool real
  | ProgressTick
  | WatchdogTick
  | VisibilityChange bool bool bool
  | TrackChangeEffect
  | TrackingEffect
  | ElementChange real "real option" bool nat
  | ContextChange context_state

fun run_task :: "task \<Rightarrow> bool \<Rightarrow> bool \<Rightarrow> real \<Rightarrow> player \<Rightarrow> player" where
  "run_task (SelectAfterFetch data) resumeOk playOk rnd s = snd (selectRandomTrack data rnd s)"
| "run_task PlayAfterStart resumeOk playOk rnd s = playAfterStart playOk s"
| "run_task (StartAfterEnded track) resumeOk playOk rnd s = startPlayback track resumeOk s"
| "run_task RetryAfterError resumeOk playOk rnd s = retryAfterError playOk rnd s"
| "run_task PlayAfterRetry resumeOk playOk rnd s = playAfterRetry playOk s"
| "run_task PlayAfterTrackChange resumeOk playOk rnd s = playAfterTrackChange playOk s"

text \<open>
  What the element does by itself: its position, duration and ready state change, and it
  may stop (at the end of the media, on a load, by an interruption from outside). It
  starts only through \<open>play()\<close>.
\<close>

definition elementChange :: "real \<Rightarrow> real option \<Rightarrow> bool \<Rightarrow> nat \<Rightarrow> audio_element \<Rightarrow> audio_element" where
  "elementChange t d stopped ready a =
     a\<lparr>el_currentTime := t, el_duration := d, el_paused := (el_paused a \<or> stopped),
       el_readyState := ready\<rparr>"

text \<open>
  \<open>fire\<close> gives \<open>None\<close> for an event that cannot happen in the state:
  \<^item> a button that is not rendered or is disabled is not clicked: the start button shows
    with the overlay and a track and is disabled while loading; play/pause is disabled
    while loading, without a track or without a catalog; skip is disabled while loading or
    without a catalog; mute is disabled while loading; retry and reset show with an error;
  \<^item> the intervals tick only while installed, a timer fires only while pending (in any
    order: the delays are not compared);
  \<^item> \<open>Math.random()\<close> is a binary64 number in \<open>[0, 1)\<close>.
\<close>

fun fire :: "event \<Rightarrow> player \<Rightarrow> player option" where
  "fire (FetchDone resp) s = Some (fetchTracks resp s)"
| "fire (UserInteraction created resumeOk) s = Some (initializeAudioContext created resumeOk s)"
| "fire (ClickStart resumeOk) s =
     (if showStartOverlay s \<and> currentTrack s \<noteq> None \<and> \<not> isLoading s
      then Some (startPlayback (currentTrack s) resumeOk s) else None)"
| "fire (ClickToggle resumeOk playOk) s =
     (if \<not> isLoading s \<and> currentTrack s \<noteq> None \<and> length (tracks s) \<noteq> 0
      then Some (togglePlayPause resumeOk playOk s) else None)"
| "fire (ClickSkip rnd) s =
     (if \<not> isLoading s \<and> length (tracks s) \<noteq> 0 \<and> is_random rnd
      then Some (skipToNext rnd s) else None)"
| "fire ClickMute s = (if \<not> isLoading s then Some (toggleMute s) else None)"
| "fire (ClickRetry resumeOk) s =
     (if error s \<noteq> None then Some (retryCurrentTrack resumeOk s) else None)"
| "fire (ClickReset closeOk created resumeOk) s =
     (if error s \<noteq> None then Some (resetAudioSystem closeOk created resumeOk s) else None)"
| "fire (PointerDown e) s = Some (handleProgressBarDown (render s) e s)"
| "fire (PointerMove e) s = Some (fold (\<lambda>c. handleMove c e) (listeners s) s)"
| "fire PointerUp s = Some (fold handleUp (listeners s) s)"
| "fire (AudioEnded rnd) s = (if is_random rnd then Some (handleTrackEnded rnd s) else None)"
| "fire (AudioError message rnd) s =
     (if is_random rnd then Some (handleError message rnd s) else None)"
| "fire AudioPlay s = Some (onPlay s)"
| "fire AudioPause s = Some (onPause s)"
| "fire AudioLoadedMetadata s = Some (handleMetadataLoaded s)"
| "fire (TimerFired i resumeOk playOk rnd) s =
     (if i < length (timers s) \<and> is_random rnd
      then Some (run_task (snd (timers s ! i)) resumeOk playOk rnd
                   (s\<lparr>timers := take i (timers s) @ drop (Suc i) (timers s)\<rparr>))
      else None)"
| "fire ProgressTick s =
     (case progressIntervalRef s of None \<Rightarrow> None | Some c \<Rightarrow> Some (updateProgress c s))"
| "fire WatchdogTick s = (if isPlaying s then Some (watchdog s) else None)"
| "fire (VisibilityChange visible resumeOk playOk) s =
     Some (handleVisibilityChange visible resumeOk playOk s)"
| "fire TrackChangeEffect s = Some (trackChangeEffect s)"
| "fire TrackingEffect s = Some (trackingEffect s)"
| "fire (ElementChange t d stopped ready) s =
     (case audioRef s of
        None \<Rightarrow> None
      | Some a \<Rightarrow> Some (s\<lparr>audioRef := Some (elementChange t d stopped ready a)\<rparr>))"
| "fire (ContextChange ctx) s =
     (case audioContextRef s of
        None \<Rightarrow> None
      | Some old \<Rightarrow> Some (s\<lparr>audioContextRef := Some ctx\<rparr>))"

fun run :: "event list \<Rightarrow> player \<Rightarrow> player option" where
  "run [] s = Some s"
| "run (e # es) s = (case fire e s of None \<Rightarrow> None | Some s' \<Rightarrow> run es s')"



text \<open>
  A drag on the progress bar: the pointer goes down, moves any number of times, and is
  released. The listeners of the gesture keep the closure of the render in which the
  pointer went down.
\<close>

definition dragGesture :: "pointer_event \<Rightarrow> pointer_event list \<Rightarrow> player \<Rightarrow> player" where
  "dragGesture down moves s =
     (let c = render s
      in handleUp c (fold (handleMove c) moves (handleProgressBarDown c down s)))"

section \<open>The invariant of the session\<close>




definition core :: "player \<Rightarrow> string option \<times> bool \<times> nat option \<times> (nat \<times> task) list" where
  "core s = (currentTrack s, isPlaying s, map_option el_plays (audioRef s), timers s)"

text \<open>The position on the bar of a pointer at \<open>clientX\<close>, between 0 and 1.\<close>

definition barPosition :: "rect \<Rightarrow> real \<Rightarrow> real" where
  "barPosition bar clientX = max 0 (min 1 ((clientX - rect_left bar) / rect_width bar))"

section \<open>Scenarios\<close>

text \<open>A progress bar 200 pixels wide at the left edge of the page.\<close>

definition bar200 :: rect where
  "bar200 = \<lparr>rect_left = 0, rect_width = 200\<rparr>"

text \<open>A music directory with two tracks and another file.\<close>

definition twoTracks :: filesystem where
  "twoTracks = \<lparr>existsSync = True, readdirSync = Some [''a.mp3'', ''notes.txt'', ''b.mp3'']\<rparr>"

text \<open>
  The catalog arrives and the deferred first selection picks index 0, \<open>a.mp3\<close>; then
  the start button is clicked, the attempt succeeds and the element reports \<open>play\<close>.
\<close>

definition loadCatalog :: "event list" where
  "loadCatalog = [FetchDone (Some (GET twoTracks)), TimerFired 0 True True 0]"

definition startPlaying :: "event list" where
  "startPlaying = loadCatalog @ [ClickStart True, TimerFired 0 True True 0, AudioPlay]"



text \<open>A catalog of six tracks.\<close>

definition sixTracks :: "string list" where
  "sixTracks = [''0.mp3'', ''1.mp3'', ''2.mp3'', ''3.mp3'', ''4.mp3'', ''5.mp3'']"

text \<open>
  The element reports a duration of 100 seconds, which \<open>handleMetadataLoaded\<close> stores.
\<close>

definition knownDuration :: "event list" where
  "knownDuration = startPlaying @ [ElementChange 10 (Some 100) False 4, AudioLoadedMetadata]"

text \<open>
  The pointer goes down on the bar while \<open>a.mp3\<close> (100 seconds) plays; the track ends
  during the drag, \<open>b.mp3\<close> is selected and loaded, and its metadata give a duration
  of 50 seconds; then the pointer moves to 180 of the 200 pixels.
\<close>

definition dragAcrossTrackChange :: "event list" where
  "dragAcrossTrackChange = knownDuration @
     [PointerDown (MouseEvent 50), AudioPause, AudioEnded (1 / 2), TrackChangeEffect,
      ElementChange 0 (Some 50) True 1, AudioLoadedMetadata, PointerMove (MouseEvent 180)]"

text \<open>
  The track ends while playing: the element pauses and reports \<open>ended\<close>, the next
  track (\<open>b.mp3\<close>) is selected and the effect reloads the element and schedules the
  attempt to play; \<open>startPlayback\<close> runs from its timer; then both attempts to play
  are rejected.
\<close>

definition failedAutoContinue :: "event list" where
  "failedAutoContinue = startPlaying @
     [AudioPause, AudioEnded (1 / 2), TrackChangeEffect,
      TimerFired 0 True True 0, TimerFired 0 True False 0, TimerFired 0 True False 0]"

section \<open>Theorems about the endpoint\<close>

lemmas callback_defs =
  selectRandomTrack_def updateProgress_def startProgressTracking_def stopProgressTracking_def
  handleProgressBarInteraction_def handleProgressBarDown_def handleMove_def handleUp_def
  fetchTracks_def initializeAudioContext_def resumeIfSuspended_def trackingEffect_def
  startPlayback_def playAfterStart_def togglePlayPause_def handleTrackEnded_def
  skipToNext_def handleError_def retryAfterError_def toggleMute_def retryCurrentTrack_def
  playAfterRetry_def resetAudioSystem_def handleMetadataLoaded_def trackChangeEffect_def
  playAfterTrackChange_def watchdog_def handleVisibilityChange_def onPlay_def onPause_def
  set_currentTime_def pause_el_def play_el_def load_el_def reload_source_def setTimeout_def
  render_def is_random_def elementChange_def

lemmas scenario_defs =
  initial_def new_audio_def bar200_def twoTracks_def GET_def endsWith_def loadCatalog_def
  startPlaying_def

lemma endsWith_iff: "endsWith name suf \<longleftrightarrow> (\<exists>stem. name = stem @ suf)"
proof
  assume e: "endsWith name suf"
  have "name = take (length name - length suf) name @ drop (length name - length suf) name"
    by simp
  with e have "name = take (length name - length suf) name @ suf"
    by (simp add: endsWith_def)
  then show "\<exists>stem. name = stem @ suf" ..
next
  assume "\<exists>stem. name = stem @ suf"
  then show "endsWith name suf"
    by (auto simp: endsWith_def)
qed

text \<open>
  C9. The listing endpoint answers 404 when the music directory is absent, 500 with an
  error body when reading the directory fails, and otherwise 200 with the tracks being
  exactly the directory's file names that end in \<open>.mp3\<close> (in directory order); an
  existing directory without such files gives a successful empty list.
\<close>

theorem GET_catalog_listing:
  "status (GET \<lparr>existsSync = False, readdirSync = rd\<rparr>) = 404
   \<and> GET \<lparr>existsSync = True, readdirSync = None\<rparr> =
       \<lparr>status = 500, body = ErrorBody ''Failed to read music directory''\<rparr>
   \<and> (\<exists>tracks. GET \<lparr>existsSync = True, readdirSync = Some files\<rparr> =
          \<lparr>status = 200, body = TracksBody tracks\<rparr>
        \<and> tracks = filter (\<lambda>name. endsWith name ''.mp3'') files
        \<and> set tracks = {name \<in> set files. \<exists>stem. name = stem @ ''.mp3''}
        \<and> ((\<forall>name \<in> set files. \<not> endsWith name ''.mp3'') \<longrightarrow> tracks = []))"
proof (intro conjI)
  show "status (GET \<lparr>existsSync = False, readdirSync = rd\<rparr>) = 404"
    by (simp add: GET_def)
  show "GET \<lparr>existsSync = True, readdirSync = None\<rparr> =
     \<lparr>status = 500, body = ErrorBody ''Failed to read music directory''\<rparr>"
    by (simp add: GET_def)
  let ?tracks = "filter (\<lambda>name. endsWith name ''.mp3'') files"
  have "GET \<lparr>existsSync = True, readdirSync = Some files\<rparr> =
          \<lparr>status = 200, body = TracksBody ?tracks\<rparr>"
    by (simp add: GET_def)
  moreover have "set ?tracks = {name \<in> set files. \<exists>stem. name = stem @ ''.mp3''}"
    by (auto simp: endsWith_iff)
  moreover have "(\<forall>name \<in> set files. \<not> endsWith name ''.mp3'') \<longrightarrow> ?tracks = []"
    by (simp add: filter_empty_conv)
  ultimately show "\<exists>tracks. GET \<lparr>existsSync = True, readdirSync = Some files\<rparr> =
          \<lparr>status = 200, body = TracksBody tracks\<rparr>
        \<and> tracks = filter (\<lambda>name. endsWith name ''.mp3'') files
        \<and> set tracks = {name \<in> set files. \<exists>stem. name = stem @ ''.mp3''}
        \<and> ((\<forall>name \<in> set files. \<not> endsWith name ''.mp3'') \<longrightarrow> tracks = [])"
    by blast
qed

theorem GET_catalog_listing_witness:
  "\<not> endsWith ''notes.txt'' ''.mp3''
   \<and> GET \<lparr>existsSync = True, readdirSync = Some [''notes.txt'']\<rparr> =
       \<lparr>status = 200, body = TracksBody []\<rparr>
   \<and> GET \<lparr>existsSync = True, readdirSync = Some [''a.mp3'', ''notes.txt'', ''b.mp3'']\<rparr> =
       \<lparr>status = 200, body = TracksBody [''a.mp3'', ''b.mp3'']\<rparr>"
  using GET_catalog_listing [of None "[''notes.txt'']"]
    GET_catalog_listing [of None "[''a.mp3'', ''notes.txt'', ''b.mp3'']"]
  by (simp add: endsWith_def)

section \<open>Theorems about track selection and seeking\<close>

text \<open>Rounding: bounds, exact values, and the error of \<open>binary64\<close>.\<close>

lemma round_even_bounds:
  "of_int (round_even m) \<le> m + 1 / 2" "m - 1 / 2 \<le> of_int (round_even m)"
  unfolding round_even_def Let_def by (auto; linarith)+

lemma round_even_nonneg: "0 \<le> m \<Longrightarrow> 0 \<le> round_even m"
  unfolding round_even_def Let_def by auto

lemma round_even_int [simp]: "round_even (of_int k) = k"
  unfolding round_even_def Let_def by simp

lemma round_even_numeral [simp]: "round_even (numeral k) = numeral k"
  unfolding round_even_def Let_def by simp

lemma binary64_0 [simp]: "binary64 0 = 0"
  by (simp add: binary64_def)

lemma binary64_nonneg: "0 \<le> binary64 x"
  unfolding binary64_def Let_def
  by (auto intro!: mult_nonneg_nonneg round_even_nonneg simp: divide_nonneg_nonneg)

lemma binary64_shape:
  assumes "0 < x" "2 powr of_int e \<le> x" "x < 2 powr (of_int e + 1)"
  shows "binary64 x = of_int (round_even (x / 2 powr (of_int (max e (- 1022)) - 52)))
            * 2 powr (of_int (max e (- 1022)) - 52)"
proof -
  have "of_int e \<le> log 2 x" using assms(1,2) by (simp add: le_log_iff)
  moreover have "log 2 x < of_int e + 1" using assms(1,3) by (simp add: log_less_iff)
  ultimately have "\<lfloor>log 2 x\<rfloor> = e" by linarith
  then show ?thesis using assms(1) by (simp add: binary64_def Let_def)
qed

lemma binary64_1 [simp]: "binary64 1 = 1"
  using binary64_shape [of 1 0] by (simp add: powr_minus)

lemma binary64_error:
  assumes "0 \<le> x"
  shows "\<bar>binary64 x - x\<bar> \<le> x / 2 ^ 53 + 1 / 2 ^ 1075"
proof (cases "x = 0")
  case True
  then show ?thesis by simp
next
  case False
  then have x: "0 < x" using assms by simp
  define e where "e = max \<lfloor>log 2 x\<rfloor> (- 1022)"
  define ulp :: real where "ulp = 2 powr (of_int e - 52)"
  have ulp: "0 < ulp" by (simp add: ulp_def)
  have b: "binary64 x = of_int (round_even (x / ulp)) * ulp"
    using x by (simp add: binary64_def Let_def e_def ulp_def)
  have "\<bar>of_int (round_even (x / ulp)) - x / ulp\<bar> \<le> 1 / 2"
    using round_even_bounds [of "x / ulp"] by linarith
  then have "\<bar>of_int (round_even (x / ulp)) - x / ulp\<bar> * ulp \<le> 1 / 2 * ulp"
    using ulp by (intro mult_right_mono) auto
  moreover have "\<bar>of_int (round_even (x / ulp)) - x / ulp\<bar> * ulp = \<bar>binary64 x - x\<bar>"
  proof -
    have "binary64 x - x = (of_int (round_even (x / ulp)) - x / ulp) * ulp"
      using ulp by (simp add: b field_simps)
    then show ?thesis using ulp by (simp add: abs_mult)
  qed
  ultimately have err: "\<bar>binary64 x - x\<bar> \<le> ulp / 2" by simp
  have "ulp / 2 \<le> x / 2 ^ 53 + 1 / 2 ^ 1075"
  proof (cases "- 1022 \<le> \<lfloor>log 2 x\<rfloor>")
    case True
    then have e: "e = \<lfloor>log 2 x\<rfloor>" by (simp add: e_def)
    have "of_int e \<le> log 2 x" by (simp add: e)
    then have "2 powr of_int e \<le> x" using x by (simp add: le_log_iff)
    moreover have "ulp / 2 = 2 powr of_int e / 2 ^ 53"
      by (simp add: ulp_def powr_diff)
    ultimately have "ulp / 2 \<le> x / 2 ^ 53" by (simp add: divide_right_mono)
    then show ?thesis by (smt (verit) divide_nonneg_nonneg zero_le_power zero_le_one)
  next
    case False
    then have e: "e = - 1022" by (simp add: e_def)
    have "ulp / 2 = 1 / 2 ^ 1075"
      by (simp add: ulp_def e powr_minus divide_simps)
    then show ?thesis using x by simp
  qed
  with err show ?thesis by linarith
qed

lemma random_index:
  assumes "is_random rnd" "0 < n"
  shows "0 \<le> \<lfloor>binary64 (rnd * real n)\<rfloor>" "\<lfloor>binary64 (rnd * real n)\<rfloor> < int n"
proof -
  let ?x = "rnd * real n"
  have r: "0 \<le> rnd" "rnd \<le> 1 - 1 / 2 ^ 53" using assms(1) by (simp_all add: is_random_def)
  have n: "1 \<le> real n" using assms(2) by simp
  have x0: "0 \<le> ?x" using r n by simp
  show "0 \<le> \<lfloor>binary64 ?x\<rfloor>" using binary64_nonneg by simp
  have xn: "?x \<le> (1 - 1 / 2 ^ 53) * real n"
    by (rule mult_right_mono) (use r n in simp_all)
  have "binary64 ?x \<le> ?x + ?x / 2 ^ 53 + 1 / 2 ^ 1075"
    using binary64_error [OF x0] by linarith
  also have "\<dots> = ?x * (1 + 1 / 2 ^ 53) + 1 / 2 ^ 1075" by (simp add: algebra_simps)
  also have "\<dots> \<le> (1 - 1 / 2 ^ 53) * real n * (1 + 1 / 2 ^ 53) + 1 / 2 ^ 1075"
    by (intro add_right_mono mult_right_mono xn) simp
  also have "\<dots> = real n - real n / 2 ^ 106 + 1 / 2 ^ 1075" by (simp add: algebra_simps)
  also have "\<dots> < real n"
  proof -
    have "(1::real) / 2 ^ 1075 < 1 / 2 ^ 106" by simp
    also have "\<dots> \<le> real n / 2 ^ 106" using n by (simp add: divide_right_mono)
    finally show ?thesis by simp
  qed
  finally have "binary64 ?x < real_of_int (int n)" by simp
  then show "\<lfloor>binary64 ?x\<rfloor> < int n" by (simp only: floor_less_iff)
qed

lemma selectRandomTrack_nonempty:
  assumes "is_random rnd" "availableTracks \<noteq> []"
  shows "selectRandomTrack availableTracks rnd s =
     (Some (availableTracks ! nat \<lfloor>binary64 (rnd * real (length availableTracks))\<rfloor>),
      s\<lparr>currentTrack :=
          Some (availableTracks ! nat \<lfloor>binary64 (rnd * real (length availableTracks))\<rfloor>),
        retryCount := 0\<rparr>)"
    and "nat \<lfloor>binary64 (rnd * real (length availableTracks))\<rfloor> < length availableTracks"
proof -
  have n: "0 < length availableTracks" using assms(2) by simp
  note ri = random_index [OF assms(1) n]
  show "selectRandomTrack availableTracks rnd s =
     (Some (availableTracks ! nat \<lfloor>binary64 (rnd * real (length availableTracks))\<rfloor>),
      s\<lparr>currentTrack :=
          Some (availableTracks ! nat \<lfloor>binary64 (rnd * real (length availableTracks))\<rfloor>),
        retryCount := 0\<rparr>)"
    using n ri by (simp add: selectRandomTrack_def Let_def)
  show "nat \<lfloor>binary64 (rnd * real (length availableTracks))\<rfloor> < length availableTracks"
    using ri by linarith
qed


text \<open>
  C5 (amended). For a nonempty catalog \<open>selectRandomTrack\<close> returns a member of the
  catalog and resets \<open>retryCount\<close> to 0. The choice is with replacement: the track
  at index \<open>i\<close> is returned exactly when the binary64 product of the random number and
  the length \<open>n\<close> lies in \<open>[i, i + 1)\<close>, whatever the current track is. That product
  differs from the exact one by a relative rounding error of at most \<open>2\<^sup>-\<^sup>5\<^sup>3\<close>
  (and \<open>2\<^sup>-\<^sup>1\<^sup>0\<^sup>7\<^sup>5\<close>), so the choice is uniform up to rounding, not exactly. For an
  empty catalog it returns nothing and leaves the state, so \<open>currentTrack\<close>, as it is.
\<close>

theorem selectRandomTrack_member:
  "(is_random rnd \<and> availableTracks \<noteq> [] \<longrightarrow>
      (\<exists>i < length availableTracks.
          real i \<le> binary64 (rnd * real (length availableTracks))
        \<and> binary64 (rnd * real (length availableTracks)) < real (i + 1)
        \<and> \<bar>binary64 (rnd * real (length availableTracks)) - rnd * real (length availableTracks)\<bar>
            \<le> rnd * real (length availableTracks) / 2 ^ 53 + 1 / 2 ^ 1075
        \<and> selectRandomTrack availableTracks rnd s =
            (Some (availableTracks ! i),
             s\<lparr>currentTrack := Some (availableTracks ! i), retryCount := 0\<rparr>))
      \<and> fst (selectRandomTrack availableTracks rnd s) \<in> Some ` set availableTracks
      \<and> retryCount (snd (selectRandomTrack availableTracks rnd s)) = 0)
   \<and> selectRandomTrack [] rnd s = (None, s)
   \<and> currentTrack (snd (selectRandomTrack [] rnd s)) = currentTrack s"
proof (intro conjI impI)
  assume a: "is_random rnd \<and> availableTracks \<noteq> []"
  let ?n = "length availableTracks"
  let ?b = "binary64 (rnd * real ?n)"
  let ?i = "nat \<lfloor>?b\<rfloor>"
  have n: "0 < ?n" using a by simp
  note ri = random_index [OF conjunct1 [OF a] n]
  note sel = selectRandomTrack_nonempty [OF conjunct1 [OF a] conjunct2 [OF a]]
  have i: "real ?i = real_of_int \<lfloor>?b\<rfloor>" using ri(1) by simp
  have lo: "real ?i \<le> ?b" unfolding i by (rule of_int_floor_le)
  have hi: "?b < real (?i + 1)" using i by (simp add: add.commute) linarith
  have "0 \<le> rnd * real ?n" using a by (simp add: is_random_def)
  then have err: "\<bar>?b - rnd * real ?n\<bar> \<le> rnd * real ?n / 2 ^ 53 + 1 / 2 ^ 1075"
    by (rule binary64_error)
  show "\<exists>i < length availableTracks.
          real i \<le> binary64 (rnd * real (length availableTracks))
        \<and> binary64 (rnd * real (length availableTracks)) < real (i + 1)
        \<and> \<bar>binary64 (rnd * real (length availableTracks)) - rnd * real (length availableTracks)\<bar>
            \<le> rnd * real (length availableTracks) / 2 ^ 53 + 1 / 2 ^ 1075
        \<and> selectRandomTrack availableTracks rnd s =
            (Some (availableTracks ! i),
             s\<lparr>currentTrack := Some (availableTracks ! i), retryCount := 0\<rparr>)"
    using sel lo hi err by blast
  show "fst (selectRandomTrack availableTracks rnd s) \<in> Some ` set availableTracks"
    using sel(2) by (simp add: sel(1))
  show "retryCount (snd (selectRandomTrack availableTracks rnd s)) = 0"
    by (simp add: sel(1))
next
  show "selectRandomTrack [] rnd s = (None, s)" by (simp add: selectRandomTrack_def)
  show "currentTrack (snd (selectRandomTrack [] rnd s)) = currentTrack s"
    by (simp add: selectRandomTrack_def)
qed

text \<open>
  The claim as stated fails: a uniform choice returns index 4 of 6 for the random
  numbers of \<open>[4/6, 5/6)\<close>, but for \<open>3752999689475413 / 2\<^sup>5\<^sup>2\<close>, which lies in that
  interval, the binary64 product is a tie that rounds to 5, and index 5 is returned.
\<close>

theorem selection_rounding_counterexample:
  "is_random (3752999689475413 / 2 ^ 52)
   \<and> (4::real) / 6 \<le> 3752999689475413 / 2 ^ 52
   \<and> 3752999689475413 / 2 ^ 52 < (5::real) / 6
   \<and> fst (selectRandomTrack sixTracks (3752999689475413 / 2 ^ 52) (initial bar200))
       = Some ''5.mp3''"
proof -
  have len: "real (length sixTracks) = 6" by (simp add: sixTracks_def)
  have tie: "binary64 (3752999689475413 / 2 ^ 52 * 6) = 5"
    using binary64_shape [of "3752999689475413 / 2 ^ 52 * 6" 2]
    by (simp add: powr_minus round_even_def Let_def)
  have "fst (selectRandomTrack sixTracks (3752999689475413 / 2 ^ 52) (initial bar200))
       = Some ''5.mp3''"
    unfolding selectRandomTrack_def Let_def len tie by (simp add: sixTracks_def)
  then show ?thesis by (simp add: is_random_def)
qed

theorem selectRandomTrack_member_witness:
  "is_random (1 / 2) \<and> [''a.mp3'', ''b.mp3''] \<noteq> []
   \<and> fst (selectRandomTrack [''a.mp3'', ''b.mp3''] (1 / 2) (initial bar200)) = Some ''b.mp3''
   \<and> currentTrack (snd (selectRandomTrack [''a.mp3'', ''b.mp3''] (1 / 2) (initial bar200)))
       = Some ''b.mp3''
   \<and> retryCount (snd (selectRandomTrack [''a.mp3'', ''b.mp3''] (1 / 2) (initial bar200))) = 0
   \<and> isPlaying (snd (selectRandomTrack [''a.mp3'', ''b.mp3''] (1 / 2) (initial bar200)))
       = isPlaying (initial bar200)"
  using selectRandomTrack_member [of "1 / 2" "[''a.mp3'', ''b.mp3'']" "initial bar200"]
  by (simp add: is_random_def selectRandomTrack_def Let_def)

text \<open>
  What \<open>handleProgressBarInteraction\<close> computes: with the duration \<open>d\<close> of its
  closure known and positive, and a bar of positive width, the position becomes
  \<open>clamp((x - barLeft) / barWidth, 0, 1) * d\<close>, which lies in \<open>[0, d]\<close>; with a
  duration that is unknown or not positive the state stays as it is.
\<close>

lemma interaction_clamp:
  "(progressBarRef s = Some bar \<and> 0 < rect_width bar \<and> c_duration c = Some d \<and> 0 < d
      \<and> clientX_of e = Some x \<longrightarrow>
      currentTime (handleProgressBarInteraction c e s) =
        max 0 (min 1 ((x - rect_left bar) / rect_width bar)) * d
      \<and> 0 \<le> currentTime (handleProgressBarInteraction c e s)
      \<and> currentTime (handleProgressBarInteraction c e s) \<le> d
      \<and> (\<forall>a. audioRef s = Some a \<and> \<not> c_isDragging c \<longrightarrow>
            audioRef (handleProgressBarInteraction c e s) =
              Some (set_currentTime (currentTime (handleProgressBarInteraction c e s)) a)))
   \<and> (c_duration c = None \<or> (\<exists>d. c_duration c = Some d \<and> d \<le> 0) \<longrightarrow>
        handleProgressBarInteraction c e s = s)"
proof (intro conjI impI)
  assume a: "progressBarRef s = Some bar \<and> 0 < rect_width bar \<and> c_duration c = Some d \<and> 0 < d
      \<and> clientX_of e = Some x"
  let ?p = "max 0 (min 1 ((x - rect_left bar) / rect_width bar))"
  have p: "0 \<le> ?p" "?p \<le> 1" by simp_all
  have ct: "currentTime (handleProgressBarInteraction c e s) = ?p * d"
    using a by (simp add: handleProgressBarInteraction_def Let_def split: option.splits)
  then show "currentTime (handleProgressBarInteraction c e s) =
        max 0 (min 1 ((x - rect_left bar) / rect_width bar)) * d" .
  show "0 \<le> currentTime (handleProgressBarInteraction c e s)"
    unfolding ct using a p(1) by (intro mult_nonneg_nonneg) auto
  have "?p * d \<le> 1 * d" using a p(2) by (intro mult_right_mono) auto
  then show "currentTime (handleProgressBarInteraction c e s) \<le> d"
    unfolding ct by simp
  show "\<forall>a. audioRef s = Some a \<and> \<not> c_isDragging c \<longrightarrow>
            audioRef (handleProgressBarInteraction c e s) =
              Some (set_currentTime (currentTime (handleProgressBarInteraction c e s)) a)"
    using a by (simp add: handleProgressBarInteraction_def Let_def split: option.splits)
next
  assume "c_duration c = None \<or> (\<exists>d. c_duration c = Some d \<and> d \<le> 0)"
  then show "handleProgressBarInteraction c e s = s"
    by (auto simp: handleProgressBarInteraction_def split: option.splits)
qed

text \<open>
  C6, evaluated on the code. The handler clamps the position into \<open>[0, duration]\<close>
  with the \<open>duration\<close> of its closure, and its dependency list names \<open>duration\<close>
  so that a new duration gives a new handler. But the move and up listeners of a gesture
  keep the handler of the render in which the pointer went down, as in C3. When the track
  changes during a drag, the next move computes the position with the old duration: with
  the new duration 50 and the old duration 100, a pointer at 180 of 200 pixels sets the
  position to 90, beyond the duration.
\<close>

theorem drag_position_exceeds_duration:
  "map_option (\<lambda>s. (currentTrack s, duration s, currentTime s))
     (run dragAcrossTrackChange (initial bar200)) = Some (Some ''b.mp3'', Some 50, 90)"
  by (simp add: dragAcrossTrackChange_def knownDuration_def scenario_defs callback_defs Let_def)

section \<open>Theorems about the retry policy\<close>

lemma run_append: "run (es @ fs) s = (case run es s of None \<Rightarrow> None | Some s' \<Rightarrow> run fs s')"
  by (induction es arbitrary: s) (auto split: option.splits)






text \<open>
  C2 (amended). \<open>retryCurrentTrack\<close>, called with an audio element and a current track,
  leaves \<open>currentTrack\<close> and \<open>retryCount\<close> as they are; unless resuming a suspended
  audio context fails, it reloads the element with the source of that same track and
  schedules the attempt to play after 500 ms.
\<close>

theorem retryCurrentTrack_keeps_track_and_count:
  "audioRef s = Some a \<and> currentTrack s = Some track \<longrightarrow>
     currentTrack (retryCurrentTrack resumeOk s) = Some track
   \<and> retryCount (retryCurrentTrack resumeOk s) = retryCount s
   \<and> (audioContextRef s \<noteq> Some Suspended \<or> resumeOk \<longrightarrow>
        audioRef (retryCurrentTrack resumeOk s) = Some (reload_source track a)
      \<and> el_source (reload_source track a) = Some (''/music/'' @ track)
      \<and> el_loads (reload_source track a) = el_loads a + 1
      \<and> timers (retryCurrentTrack resumeOk s) = timers s @ [(500, PlayAfterRetry)])"
  by (auto simp: retryCurrentTrack_def resumeIfSuspended_def setTimeout_def reload_source_def
      load_el_def Let_def)

text \<open>
  The claim as stated fails: after one error event \<open>retryCount\<close> is 1, and it is still 1
  after the retry button is clicked.
\<close>

theorem retry_keeps_retryCount_counterexample:
  "map_option (\<lambda>s. (retryCount s, currentTrack s))
     (run (loadCatalog @ [AudioError None (1 / 2), ClickRetry True]) (initial bar200))
   = Some (1, Some ''a.mp3'')"
  by (simp add: scenario_defs callback_defs Let_def)

theorem retryCurrentTrack_keeps_track_and_count_witness:
  "audioRef ((initial bar200)\<lparr>currentTrack := Some ''a.mp3'', retryCount := 2\<rparr>) = Some new_audio
   \<and> currentTrack ((initial bar200)\<lparr>currentTrack := Some ''a.mp3'', retryCount := 2\<rparr>)
       = Some ''a.mp3''
   \<and> retryCount (retryCurrentTrack True
         ((initial bar200)\<lparr>currentTrack := Some ''a.mp3'', retryCount := 2\<rparr>)) = 2
   \<and> map_option el_source (audioRef (retryCurrentTrack True
         ((initial bar200)\<lparr>currentTrack := Some ''a.mp3'', retryCount := 2\<rparr>)))
       = Some (Some ''/music/a.mp3'')
   \<and> map_option el_loads (audioRef (retryCurrentTrack True
         ((initial bar200)\<lparr>currentTrack := Some ''a.mp3'', retryCount := 2\<rparr>))) = Some 1"
  using retryCurrentTrack_keeps_track_and_count
    [of "(initial bar200)\<lparr>currentTrack := Some ''a.mp3'', retryCount := 2\<rparr>" new_audio
        "''a.mp3''" True]
  by (simp add: initial_def new_audio_def reload_source_def load_el_def)

section \<open>Theorems about pausing and visibility\<close>




text \<open>
  C8. When the page is hidden while playing, the handler only removes the polling
  interval: \<open>isPlaying\<close> and the element are untouched. When the page is visible again,
  a suspended audio context is resumed (it runs if \<open>resume()\<close> resolves); if
  \<open>isPlaying\<close> holds and the element is paused, \<open>play()\<close> is called exactly once: if
  it resolves the polling restarts, if it rejects \<open>isPlaying\<close> becomes false and
  polling stays off, and in both cases \<open>error\<close> is not touched. Otherwise \<open>play()\<close>
  is not called.
\<close>

theorem visibility_round_trip:
  "(isPlaying s \<longrightarrow>
      handleVisibilityChange False resumeOk playOk s = s\<lparr>progressIntervalRef := None\<rparr>)
   \<and> (audioContextRef s = Some Suspended \<longrightarrow>
        audioContextRef (handleVisibilityChange True resumeOk playOk s)
          = Some (if resumeOk then Running else Suspended))
   \<and> (isPlaying s \<and> audioRef s = Some a \<and> el_paused a \<longrightarrow>
        map_option el_plays (audioRef (handleVisibilityChange True resumeOk playOk s))
          = Some (el_plays a + 1)
      \<and> error (handleVisibilityChange True resumeOk playOk s) = error s
      \<and> (playOk \<longrightarrow> isPlaying (handleVisibilityChange True resumeOk playOk s)
            \<and> progressIntervalRef (handleVisibilityChange True resumeOk playOk s) = Some (render s))
      \<and> (\<not> playOk \<longrightarrow> \<not> isPlaying (handleVisibilityChange True resumeOk playOk s)
            \<and> progressIntervalRef (handleVisibilityChange True resumeOk playOk s) = None))
   \<and> (\<not> (isPlaying s \<and> (\<exists>a. audioRef s = Some a \<and> el_paused a)) \<longrightarrow>
        audioRef (handleVisibilityChange True resumeOk playOk s) = audioRef s
      \<and> isPlaying (handleVisibilityChange True resumeOk playOk s) = isPlaying s)"
  by (auto simp: handleVisibilityChange_def stopProgressTracking_def startProgressTracking_def
      play_el_def Let_def split: option.splits)

theorem visibility_round_trip_witness:
  "isPlaying ((initial bar200)\<lparr>currentTrack := Some ''a.mp3'', isPlaying := True,
       progressIntervalRef := Some (render (initial bar200))\<rparr>)
   \<and> progressIntervalRef (handleVisibilityChange False True True
        ((initial bar200)\<lparr>currentTrack := Some ''a.mp3'', isPlaying := True,
           progressIntervalRef := Some (render (initial bar200))\<rparr>)) = None
   \<and> audioRef ((initial bar200)\<lparr>currentTrack := Some ''a.mp3'', isPlaying := True,
       progressIntervalRef := Some (render (initial bar200))\<rparr>) = Some new_audio
   \<and> el_paused new_audio
   \<and> \<not> isPlaying (handleVisibilityChange True True False
        (handleVisibilityChange False True True
          ((initial bar200)\<lparr>currentTrack := Some ''a.mp3'', isPlaying := True,
             progressIntervalRef := Some (render (initial bar200))\<rparr>)))
   \<and> error (handleVisibilityChange True True False
        (handleVisibilityChange False True True
          ((initial bar200)\<lparr>currentTrack := Some ''a.mp3'', isPlaying := True,
             progressIntervalRef := Some (render (initial bar200))\<rparr>))) = None"
  using visibility_round_trip
      [of "(initial bar200)\<lparr>currentTrack := Some ''a.mp3'', isPlaying := True,
             progressIntervalRef := Some (render (initial bar200))\<rparr>" True True new_audio]
    visibility_round_trip
      [of "(initial bar200)\<lparr>currentTrack := Some ''a.mp3'', isPlaying := True,
             progressIntervalRef := None\<rparr>" True False new_audio]
  by (simp add: initial_def new_audio_def)

section \<open>Theorems about the invariant\<close>


lemma core_interaction [simp]: "core (handleProgressBarInteraction c e s) = core s"
  by (simp add: handleProgressBarInteraction_def core_def set_currentTime_def Let_def
      split: option.splits)

lemma core_up [simp]: "core (handleUp c s) = core s"
  by (simp add: handleUp_def core_def set_currentTime_def startProgressTracking_def Let_def
      split: option.splits)





lemma select_fields [simp]:
  "isPlaying (snd (selectRandomTrack p rnd s)) = isPlaying s"
  "audioRef (snd (selectRandomTrack p rnd s)) = audioRef s"
  "timers (snd (selectRandomTrack p rnd s)) = timers s"
  "tracks (snd (selectRandomTrack p rnd s)) = tracks s"
  by (simp_all add: selectRandomTrack_def Let_def)



































section \<open>Theorems about dragging\<close>

text \<open>
  What a drag does to the element, for a gesture that starts while no other drag is in
  progress, with a known positive duration: every pointer event of the gesture assigns
  \<open>currentTime\<close>, and the release assigns the last position once more.
\<close>

lemma interaction_seeks:
  assumes "\<not> c_isDragging c" "c_duration c = Some d" "0 < d"
    "progressBarRef s = Some bar" "audioRef s = Some a"
  shows "handleProgressBarInteraction c (MouseEvent x) s =
     s\<lparr>seekPosition := Some (barPosition bar x), currentTime := barPosition bar x * d,
       lastDragPositionRef := Some (barPosition bar x),
       audioRef := Some (set_currentTime (barPosition bar x * d) a)\<rparr>"
  using assms by (simp add: handleProgressBarInteraction_def barPosition_def Let_def)

lemma moves_seek:
  assumes "\<not> c_isDragging c" "c_duration c = Some d" "0 < d"
    "progressBarRef s = Some bar" "audioRef s = Some a" "lastDragPositionRef s = Some p"
  shows "\<exists>a'. audioRef (fold (handleMove c) (map MouseEvent xs) s) = Some a'
     \<and> el_seeks a' = el_seeks a @ map (\<lambda>x. barPosition bar x * d) xs
     \<and> lastDragPositionRef (fold (handleMove c) (map MouseEvent xs) s)
         = Some (last (p # map (barPosition bar) xs))"
  using assms(4-6)
proof (induction xs arbitrary: s a p)
  case Nil
  then show ?case by simp
next
  case (Cons x xs)
  let ?s1 = "handleMove c (MouseEvent x) s"
  let ?a1 = "set_currentTime (barPosition bar x * d) a"
  have s1: "?s1 = s\<lparr>seekPosition := Some (barPosition bar x), currentTime := barPosition bar x * d,
       lastDragPositionRef := Some (barPosition bar x), audioRef := Some ?a1\<rparr>"
    unfolding handleMove_def
    by (rule interaction_seeks [OF assms(1-3) Cons.prems(1,2)])
  have p1: "progressBarRef ?s1 = Some bar" "audioRef ?s1 = Some ?a1"
    "lastDragPositionRef ?s1 = Some (barPosition bar x)"
    using Cons.prems by (simp_all add: s1)
  from Cons.IH [OF p1] obtain a' where
    a': "audioRef (fold (handleMove c) (map MouseEvent xs) ?s1) = Some a'"
      "el_seeks a' = el_seeks ?a1 @ map (\<lambda>x. barPosition bar x * d) xs"
      "lastDragPositionRef (fold (handleMove c) (map MouseEvent xs) ?s1)
         = Some (last (barPosition bar x # map (barPosition bar) xs))"
    by blast
  show ?case using a' by (simp add: set_currentTime_def)
qed

lemma dragGesture_seeks:
  assumes "\<not> isDragging s" "duration s = Some d" "0 < d"
    "progressBarRef s = Some bar" "audioRef s = Some a"
  shows "map_option el_seeks (audioRef (dragGesture (MouseEvent x) (map MouseEvent xs) s)) =
     Some (el_seeks a @ map (\<lambda>x. barPosition bar x * d) (x # xs)
             @ [last (map (barPosition bar) (x # xs)) * d])"
proof -
  let ?c = "render s"
  have c: "\<not> c_isDragging ?c" "c_duration ?c = Some d"
    using assms(1,2) by (simp_all add: render_def)
  let ?s0 = "stopProgressTracking (s\<lparr>isDragging := True\<rparr>)"
  let ?a1 = "set_currentTime (barPosition bar x * d) a"
  have p0: "progressBarRef ?s0 = Some bar" "audioRef ?s0 = Some a"
    using assms(4,5) by (simp_all add: stopProgressTracking_def)
  let ?s1 = "handleProgressBarDown ?c (MouseEvent x) s"
  have s1: "?s1 = ?s0\<lparr>seekPosition := Some (barPosition bar x), currentTime := barPosition bar x * d,
       lastDragPositionRef := Some (barPosition bar x), audioRef := Some ?a1,
       listeners := listeners s @ [?c]\<rparr>"
    unfolding handleProgressBarDown_def Let_def interaction_seeks [OF c assms(3) p0]
    by (simp add: stopProgressTracking_def)
  have p1: "progressBarRef ?s1 = Some bar" "audioRef ?s1 = Some ?a1"
    "lastDragPositionRef ?s1 = Some (barPosition bar x)"
    using assms(4) by (simp_all add: s1 stopProgressTracking_def)
  let ?s2 = "fold (handleMove ?c) (map MouseEvent xs) ?s1"
  from moves_seek [OF c assms(3) p1] obtain a' where
    a': "audioRef ?s2 = Some a'"
      "el_seeks a' = el_seeks ?a1 @ map (\<lambda>x. barPosition bar x * d) xs"
      "lastDragPositionRef ?s2 = Some (last (barPosition bar x # map (barPosition bar) xs))"
    by blast
  have "map_option el_seeks (audioRef (handleUp ?c ?s2)) =
     Some (el_seeks a' @ [last (barPosition bar x # map (barPosition bar) xs) * d])"
    using a'(1,3) c(2)
    by (simp add: handleUp_def Let_def startProgressTracking_def set_currentTime_def)
  then show ?thesis
    unfolding dragGesture_def Let_def by (simp add: a'(2) set_currentTime_def)
qed

text \<open>
  C3, evaluated on the code. The comments in \<open>handleProgressBarInteraction\<close> say that
  a drag only updates the displayed position and that the real seek is made when the drag
  ends, which is what the claim says. But \<open>isDragging\<close> is read from the closure:
  \<open>handleProgressBarDown\<close> calls the \<open>handleProgressBarInteraction\<close> of the render
  in which the pointer went down, where \<open>isDragging\<close> is still false, and
  \<open>handleMove\<close> keeps calling that same function. With a duration of 100 and a bar
  of 200 pixels, a pointer that goes down at 50 and moves to 100 and 150 has already
  written 25, 50 and 75 to the element's \<open>currentTime\<close> before it is released, and
  the release writes 75 again: four seeks, not one.
\<close>

theorem drag_seeks_on_every_move:
  "map_option (\<lambda>s. (isDragging s, map_option el_seeks (audioRef s)))
     (run (knownDuration @
        [PointerDown (MouseEvent 50), PointerMove (MouseEvent 100), PointerMove (MouseEvent 150)])
        (initial bar200)) = Some (True, Some [25, 50, 75])
   \<and> map_option (\<lambda>s. (isDragging s, map_option el_seeks (audioRef s)))
     (run (knownDuration @
        [PointerDown (MouseEvent 50), PointerMove (MouseEvent 100), PointerMove (MouseEvent 150),
         PointerUp])
        (initial bar200)) = Some (False, Some [25, 50, 75, 75])"
  by (simp add: knownDuration_def scenario_defs callback_defs Let_def)

section \<open>Theorems about track changes\<close>

text \<open>
  The track-change effect schedules the attempt to play exactly when \<open>isPlaying\<close> or
  the end-of-track flag holds. \<open>handleTrackEnded\<close> sets the flag and schedules
  \<open>startPlayback\<close> as well; a skip changes neither the flag nor \<open>isPlaying\<close>; the
  flag is cleared only when the attempt scheduled by the effect succeeds.
\<close>

lemma trackChangeEffect_schedules:
  assumes "audioRef s = Some a" "currentTrack s = Some track"
  shows "audioRef (trackChangeEffect s) = Some (reload_source track a)"
    and "timers (trackChangeEffect s) =
      (if isPlaying s \<or> trackEndedRef s then timers s @ [(500, PlayAfterTrackChange)]
       else timers s)"
    and "trackEndedRef (trackChangeEffect s) = trackEndedRef s"
    and "isPlaying (trackChangeEffect s) = isPlaying s"
  using assms
  by (simp_all add: trackChangeEffect_def stopProgressTracking_def setTimeout_def Let_def)

lemma trackEndedRef_set_and_kept:
  "trackEndedRef (handleTrackEnded rnd s)"
  "timers (handleTrackEnded rnd s) = timers s @ [(500, StartAfterEnded (currentTrack s))]"
  "trackEndedRef (skipToNext rnd s) = trackEndedRef s"
  "isPlaying (skipToNext rnd s) = isPlaying s"
  "trackEndedRef (playAfterTrackChange False s) = trackEndedRef s"
  "trackEndedRef (playAfterStart playOk s) = trackEndedRef s"
  "trackEndedRef (startPlayback track resumeOk s) = trackEndedRef s"
  by (simp_all add: handleTrackEnded_def skipToNext_def playAfterTrackChange_def
      playAfterStart_def startPlayback_def resumeIfSuspended_def selectRandomTrack_def
      stopProgressTracking_def startProgressTracking_def setTimeout_def Let_def
      split: option.split)

text \<open>
  C4, evaluated on the code. The effect's comment says the new track is played if the
  session was playing or the change was triggered by the track ending, which is what the
  claim says. But \<open>trackEndedRef\<close> is cleared only in the \<open>then\<close> of the attempt,
  not in its \<open>catch\<close> (nor by \<open>startPlayback\<close>, although the first version's
  \<open>handleTrackEnded\<close> cleared it in its own \<open>then\<close>). After an end of track whose
  attempts to play are rejected the session is paused with the flag still set, and a skip
  in that state makes the effect schedule \<open>play()\<close> for the new track.
\<close>

theorem skip_while_paused_autostarts_after_failed_continue:
  "map_option (\<lambda>s. (isPlaying s, isLoading s, trackEndedRef s, currentTrack s, timers s))
     (run failedAutoContinue (initial bar200)) = Some (False, False, True, Some ''b.mp3'', [])
   \<and> map_option (\<lambda>s. (isPlaying s, currentTrack s, timers s))
     (run (failedAutoContinue @ [ClickSkip 0, TrackChangeEffect]) (initial bar200))
     = Some (False, Some ''a.mp3'', [(500, PlayAfterTrackChange)])"
  by (simp add: failedAutoContinue_def scenario_defs callback_defs Let_def)

end
